theory Spec2Isabelle
  imports Complex_Main
begin

section \<open>Strings\<close>

text \<open>
  Markup, attribute names and attribute values are \<^typ>\<open>string\<close>s. The string methods
  of the source (\<open>toLowerCase\<close>, \<open>toUpperCase\<close>, \<open>trim\<close>, \<open>startsWith\<close>,
  \<open>includes\<close>, \<open>split\<close>, \<open>join\<close>) are modelled on ASCII text: letters outside
  \<open>A..Z\<close>/\<open>a..z\<close> are left unchanged by case conversion, and white space is
  the ASCII white space.
\<close>

definition nl :: string where
  "nl = [CHR 0x0A]"

definition toLowerChar :: "char \<Rightarrow> char" where
  "toLowerChar c =
     (if 65 \<le> (of_char c :: nat) \<and> (of_char c :: nat) \<le> 90
      then char_of ((of_char c :: nat) + 32) else c)"

definition toUpperChar :: "char \<Rightarrow> char" where
  "toUpperChar c =
     (if 97 \<le> (of_char c :: nat) \<and> (of_char c :: nat) \<le> 122
      then char_of ((of_char c :: nat) - 32) else c)"

definition toLowerCase :: "string \<Rightarrow> string" where
  "toLowerCase s = map toLowerChar s"

definition toUpperCase :: "string \<Rightarrow> string" where
  "toUpperCase s = map toUpperChar s"

definition startsWith :: "string \<Rightarrow> string \<Rightarrow> bool" where
  "startsWith s p = (take (length p) s = p)"

fun includesStr :: "string \<Rightarrow> string \<Rightarrow> bool" where
  "includesStr [] sub = (sub = [])"
| "includesStr (c # cs) sub = (startsWith (c # cs) sub \<or> includesStr cs sub)"

definition isWhiteSpace :: "char \<Rightarrow> bool" where
  "isWhiteSpace c = (c \<in> set [CHR 0x09, CHR 0x0A, CHR 0x0B, CHR 0x0C, CHR 0x0D, CHR '' ''])"

definition trim :: "string \<Rightarrow> string" where
  "trim s = rev (dropWhile isWhiteSpace (rev (dropWhile isWhiteSpace s)))"

fun join :: "string \<Rightarrow> string list \<Rightarrow> string" where
  "join sep [] = []"
| "join sep [x] = x"
| "join sep (x # y # ys) = x @ sep @ join sep (y # ys)"

text \<open>\<open>s.split(c)\<close> for a one-character separator: never empty, \<open>''''\<close> gives \<open>['''']\<close>.\<close>

fun split :: "char \<Rightarrow> string \<Rightarrow> string list" where
  "split sep [] = [[]]"
| "split sep (c # cs) =
     (if c = sep then [] # split sep cs
      else (case split sep cs of [] \<Rightarrow> [[c]] | p # ps \<Rightarrow> (c # p) # ps))"

section \<open>Identifier derivation\<close>

text \<open>\<open>part.charAt(0).toUpperCase() + part.slice(1)\<close>\<close>

definition capitalize :: "string \<Rightarrow> string" where
  "capitalize part = toUpperCase (take 1 part) @ drop 1 part"

definition getComponentName :: "string \<Rightarrow> string" where
  "getComponentName filename = join [] (map capitalize (split CHR ''-'' filename)) @ ''Icon''"

section \<open>Document elements\<close>

text \<open>
  An \<open>Element\<close> of the document: its tag name, its attributes in document order and its
  child elements (text nodes are not elements and are not in \<open>children\<close>).
\<close>

datatype element =
  Element (tagName: string) (attributes: "(string \<times> string) list") (children: "element list")

definition getAttribute :: "element \<Rightarrow> string \<Rightarrow> string option" where
  "getAttribute element name = map_of (attributes element) name"

definition hasAttribute :: "element \<Rightarrow> string \<Rightarrow> bool" where
  "hasAttribute element name = (getAttribute element name \<noteq> None)"

text \<open>\<open>x || d\<close> on a string or \<open>null\<close>: \<open>null\<close> and the empty string are falsy.\<close>

definition orElse :: "string option \<Rightarrow> string \<Rightarrow> string" where
  "orElse x d = (case x of None \<Rightarrow> d | Some s \<Rightarrow> (if s = [] then d else s))"

section \<open>Shape classifier\<close>

definition isHelperElement :: "element \<Rightarrow> bool" where
  "isHelperElement element =
     (let tagName' = toLowerCase (tagName element);
          fill = getAttribute element ''fill'';
          width = getAttribute element ''width'';
          height = getAttribute element ''height''
      in
        if tagName' = ''rect'' \<and>
           (fill = Some ''#ffffff'' \<or> fill = Some ''white'' \<or> fill = Some ''#fff'') then True
        else if tagName' = ''rect'' \<and> width = Some ''24'' \<and> height = Some ''24'' then True
        else
          (let id = orElse (map_option toLowerCase (getAttribute element ''id'')) [];
               className = orElse (map_option toLowerCase (getAttribute element ''class'')) []
           in
             if includesStr id ''helper'' \<or> includesStr id ''background'' \<or> includesStr id ''bg'' \<or>
                includesStr className ''helper'' \<or> includesStr className ''background'' \<or>
                includesStr className ''bg''
             then True else False))"

definition isMainIconElement :: "element \<Rightarrow> bool" where
  "isMainIconElement element =
     (let tagName' = toLowerCase (tagName element)
      in
        if tagName' = ''path'' then True
        else if tagName' \<in> set [''circle'', ''ellipse'', ''line'', ''polygon'', ''polyline''] then True
        else False)"

text \<open>
  The principal elements of an \<open>svg\<close> element: its children that are neither helpers nor
  of another tag; when there is none, every child that is not a helper.
\<close>

definition mainElementsOf :: "element \<Rightarrow> element list" where
  "mainElementsOf svgElement =
     (let mainElements =
            filter (\<lambda>element. if isHelperElement element then False else isMainIconElement element)
              (children svgElement)
      in
        if length mainElements = 0
        then mainElements @ filter (\<lambda>element. \<not> isHelperElement element) (children svgElement)
        else mainElements)"

section \<open>Flatness evaluator, structured strategy\<close>

definition hasStroke :: "element \<Rightarrow> bool" where
  "hasStroke element =
     (hasAttribute element ''stroke'' \<and>
      getAttribute element ''stroke'' \<noteq> Some ''none'' \<and>
      getAttribute element ''stroke'' \<noteq> Some ''transparent'')"

definition hasFill :: "element \<Rightarrow> bool" where
  "hasFill element =
     (hasAttribute element ''fill'' \<and>
      getAttribute element ''fill'' \<noteq> Some ''none'' \<and>
      getAttribute element ''fill'' \<noteq> Some ''transparent'')"

definition outlineCheckedTags :: "string list" where
  "outlineCheckedTags = [''path'', ''circle'', ''ellipse'', ''rect'', ''polygon'', ''polyline'']"

text \<open>
  The loop over the principal elements, as a step on the pair
  \<open>(allElementsProperlyOutlined, hasStrokes)\<close>.
\<close>

definition outlineStep :: "element \<Rightarrow> bool \<times> bool \<Rightarrow> bool \<times> bool" where
  "outlineStep element st =
     (let st1 = (if hasStroke element then (False, True) else st)
      in
        if toLowerCase (tagName element) \<in> set outlineCheckedTags
        then (if \<not> hasFill element \<and> \<not> hasStroke element then (False, snd st1) else st1)
        else st1)"

fun outlineLoop :: "element list \<Rightarrow> bool \<times> bool \<Rightarrow> bool \<times> bool" where
  "outlineLoop [] st = st"
| "outlineLoop (element # rest) st = outlineLoop rest (outlineStep element st)"

definition isSinglePathOf :: "element list \<Rightarrow> bool" where
  "isSinglePathOf mainElements =
     (let pathElements = filter (\<lambda>element. toLowerCase (tagName element) = ''path'') mainElements;
          (allElementsProperlyOutlined, hasStrokes) = outlineLoop mainElements (True, False);
          hasNestedElements = list_ex (\<lambda>element. length (children element) > 0) mainElements;
          isSinglePathElement = (length pathElements = 1 \<and> length mainElements = 1);
          isMultipleProperlyOutlinedElements =
            (length mainElements > 1 \<and> allElementsProperlyOutlined \<and> \<not> hasStrokes)
      in (isSinglePathElement \<or> isMultipleProperlyOutlinedElements) \<and> \<not> hasNestedElements)"

section \<open>Component synthesizer\<close>

subsection \<open>Paint normalization and markup of one element\<close>

definition rewritePaint :: "string \<Rightarrow> string \<Rightarrow> string" where
  \<open>rewritePaint name v =
     (if name = ''fill'' \<or> name = ''stroke'' then
        (if v \<noteq> ''none'' \<and> v \<noteq> ''transparent'' \<and> v \<noteq> ''rgba(0,0,0,0)'' \<and>
            \<not> startsWith v ''url('' \<and> \<not> startsWith v ''hsl('' \<and> \<not> startsWith v ''rgb(''
         then ''currentColor'' else v)
      else v)\<close>

definition formatAttribute :: "string \<times> string \<Rightarrow> string" where
  \<open>formatAttribute attr = fst attr @ ''="'' @ rewritePaint (fst attr) (snd attr) @ ''"''\<close>

text \<open>
  The quote-aware tokenizer: one step of its loop on the state
  \<open>(attrs, current, inQuotes, quoteChar)\<close>; \<open>quoteChar\<close> is \<open>None\<close> while it is
  the empty string of the source.
\<close>

type_synonym splitState = "string list \<times> string \<times> bool \<times> char option"

definition splitStep :: "splitState \<Rightarrow> char \<Rightarrow> splitState" where
  \<open>splitStep st char =
     (case st of (attrs, current, inQuotes, quoteChar) \<Rightarrow>
        if (char = CHR ''"'' \<or> char = CHR 0x27) \<and> \<not> inQuotes then
          (attrs, current @ [char], True, Some char)
        else if Some char = quoteChar \<and> inQuotes then
          (attrs, current @ [char], False, None)
        else if char = CHR '' '' \<and> \<not> inQuotes then
          (if trim current \<noteq> [] then (attrs @ [trim current], [], inQuotes, quoteChar)
           else (attrs, current, inQuotes, quoteChar))
        else (attrs, current @ [char], inQuotes, quoteChar))\<close>

definition splitAttrs :: "string \<Rightarrow> string list" where
  "splitAttrs attributes' =
     (case foldl splitStep ([], [], False, None) attributes' of
        (attrs, current, inQuotes, quoteChar) \<Rightarrow>
          if trim current \<noteq> [] then attrs @ [trim current] else attrs)"

definition formatPath :: "string list \<Rightarrow> string" where
  "formatPath attrs =
     ''<path'' @ concat (map (\<lambda>attr. nl @ ''          '' @ attr) attrs) @ nl @ ''        />''"

definition emitElement :: "element \<Rightarrow> string" where
  "emitElement element =
     (let tagName' = toLowerCase (tagName element);
          attributes' = join '' '' (map formatAttribute (attributes element))
      in
        if tagName' = ''path'' then formatPath (splitAttrs attributes')
        else ''<'' @ tagName' @ '' '' @ attributes' @ '' />'')"

definition joinChildElements :: "string list \<Rightarrow> string" where
  "joinChildElements els = join (nl @ ''        '') els"

subsection \<open>The two renderings and the source template\<close>

definition jsxOf :: "string \<Rightarrow> string \<Rightarrow> string" where
  \<open>jsxOf viewBox childElements =
     ''<svg'' @ nl @
     ''        width={size || 24}'' @ nl @
     ''        height={size || 24}'' @ nl @
     ''        viewBox="'' @ viewBox @ ''"'' @ nl @
     ''        fill="currentColor"'' @ nl @
     ''        xmlns="http://www.w3.org/2000/svg"'' @ nl @
     ''        className={className}'' @ nl @
     ''        aria-hidden="true"'' @ nl @
     ''        ref={ref}'' @ nl @
     ''        {...props}'' @ nl @
     ''      >'' @ nl @
     ''        '' @ childElements @ nl @
     ''      </svg>''\<close>

definition previewSvgOf :: "string \<Rightarrow> string \<Rightarrow> string" where
  \<open>previewSvgOf viewBox childElements =
     ''<svg'' @ nl @
     ''        width="24"'' @ nl @
     ''        height="24"'' @ nl @
     ''        viewBox="'' @ viewBox @ ''"'' @ nl @
     ''        fill="currentColor"'' @ nl @
     ''        xmlns="http://www.w3.org/2000/svg"'' @ nl @
     ''        aria-hidden="true"'' @ nl @
     ''      >'' @ nl @
     ''        '' @ childElements @ nl @
     ''      </svg>''\<close>

definition reactCodeOf :: "string \<Rightarrow> string \<Rightarrow> string" where
  \<open>reactCodeOf componentName jsx' =
     ''/**'' @ nl @
     '' * (c) Copyright 2025 Nominal Inc. All rights reserved.'' @ nl @
     '' */'' @ nl @
     nl @
     ''import React, { memo } from "react";'' @ nl @
     nl @
     ''import type { IconProps } from "./types";'' @ nl @
     ''// Auto-generated icon component'' @ nl @
     ''export const '' @ componentName @ '': React.NamedExoticComponent<IconProps> = memo('' @ nl @
     ''  function '' @ componentName @ ''({ size = 24, className, ref, ...props }: IconProps) {'' @ nl @
     ''    return ('' @ nl @
     ''      '' @ jsx' @ nl @
     ''    );'' @ nl @
     ''  },'' @ nl @
     '');'' @ nl @
     componentName @ ''.displayName = "'' @ componentName @ ''";'' @ nl @
     ''export { '' @ componentName @ '' as ReactComponent };''\<close>

record processedIcon =
  componentName :: string
  reactCode :: string
  jsx :: string
  previewSvg :: string
  isSinglePath :: bool

subsection \<open>Structured strategy\<close>

datatype jsError = Error string

text \<open>
  The document parser of the host is a parameter: \<open>None\<close> when the host has no
  \<open>DOMParser\<close>, otherwise the function from the markup to the \<open>svg\<close> element that
  \<open>querySelector\<close> finds in the parsed document (\<open>None\<close> when there is none). An
  error raised while parsing is caught by the same inner handler as a missing \<open>svg\<close>
  element, so it is \<open>None\<close> here as well.
\<close>

type_synonym domParser = "string \<Rightarrow> element option"

text \<open>The result of a strategy: \<open>(viewBox, childElements, isSinglePath)\<close>.\<close>

type_synonym extracted = "string \<times> string \<times> bool"

definition extractFromSvgElement :: "element \<Rightarrow> extracted" where
  "extractFromSvgElement svgElement =
     (let viewBox = orElse (getAttribute svgElement ''viewBox'') ''0 0 24 24'';
          mainElements = mainElementsOf svgElement;
          isSinglePath' = isSinglePathOf mainElements;
          childElements = joinChildElements (map emitElement mainElements)
      in (viewBox, childElements, isSinglePath'))"

definition extractWithDOMParser :: "domParser option \<Rightarrow> string \<Rightarrow> jsError + extracted" where
  "extractWithDOMParser parser svgContent =
     (case parser of
        None \<Rightarrow> Inl (Error ''DOMParser not available'')
      | Some parseSvg \<Rightarrow>
          (case parseSvg svgContent of
             None \<Rightarrow> Inl (Error ''No SVG element found'')
           | Some svgElement \<Rightarrow> Inr (extractFromSvgElement svgElement)))"

subsection \<open>Text-pattern strategy\<close>

text \<open>
  The tail of a tag pattern (any characters but the closing angle bracket, then a slash
  and the closing angle bracket) read at the text after a tag prefix: the characters up
  to the first closing angle bracket, which must exist and be preceded by a slash.
\<close>

definition selfClosingRun :: "string \<Rightarrow> string option" where
  "selfClosingRun rest =
     (let run = takeWhile (\<lambda>c. c \<noteq> CHR ''>'') rest
      in if length run < length rest \<and> run \<noteq> [] \<and> last run = CHR ''/''
         then Some (run @ ''>'') else None)"

text \<open>
  A match of a tag pattern (one of the alternative prefixes, then the tail) that starts
  at the head of the text; the alternatives are tried in order.
\<close>

fun matchTagAt :: "string list \<Rightarrow> string \<Rightarrow> string option" where
  "matchTagAt [] s = None"
| "matchTagAt (p # ps) s =
     (if startsWith s p then
        (case selfClosingRun (drop (length p) s) of
           Some m \<Rightarrow> Some (p @ m)
         | None \<Rightarrow> matchTagAt ps s)
      else matchTagAt ps s)"

text \<open>
  A global \<open>match\<close>: every match from left to right, the search resuming after the
  end of the last match (\<open>skip\<close> counts the characters still inside it).
\<close>

fun matchAll :: "string list \<Rightarrow> nat \<Rightarrow> string \<Rightarrow> string list" where
  "matchAll prefixes skip [] = []"
| "matchAll prefixes skip (c # cs) =
     (if skip > 0 then matchAll prefixes (skip - 1) cs
      else (case matchTagAt prefixes (c # cs) of
              Some m \<Rightarrow> m # matchAll prefixes (length m - 1) cs
            | None \<Rightarrow> matchAll prefixes 0 cs))"

text \<open>A \<open>match\<close> without the global flag: the first match.\<close>

fun matchFirst :: "string list \<Rightarrow> string \<Rightarrow> string option" where
  "matchFirst prefixes [] = None"
| "matchFirst prefixes (c # cs) =
     (case matchTagAt prefixes (c # cs) of
        Some m \<Rightarrow> Some m
      | None \<Rightarrow> matchFirst prefixes cs)"

definition viewBoxAt :: "string \<Rightarrow> string option" where
  \<open>viewBoxAt s =
     (if startsWith s ''viewBox="'' then
        (let rest = drop (length ''viewBox="'') s;
             run = takeWhile (\<lambda>c. c \<noteq> CHR ''"'') rest
         in if run \<noteq> [] \<and> length run < length rest then Some run else None)
      else None)\<close>

fun viewBoxMatch :: "string \<Rightarrow> string option" where
  "viewBoxMatch [] = None"
| "viewBoxMatch (c # cs) =
     (case viewBoxAt (c # cs) of Some v \<Rightarrow> Some v | None \<Rightarrow> viewBoxMatch cs)"

definition isHelperRectText :: "string \<Rightarrow> bool" where
  \<open>isHelperRectText element =
     (includesStr element ''fill="#ffffff"'' \<or> includesStr element ''fill="white"'' \<or>
      includesStr element ''fill="#fff"'' \<or>
      includesStr element ''width="24"'' \<and> includesStr element ''height="24"'')\<close>

definition hasStrokeText :: "string \<Rightarrow> bool" where
  \<open>hasStrokeText element =
     (includesStr element ''stroke='' \<and> \<not> includesStr element ''stroke="none"'' \<and>
      \<not> includesStr element ''stroke="transparent"'')\<close>

definition hasFillText :: "string \<Rightarrow> bool" where
  \<open>hasFillText element =
     (includesStr element ''fill='' \<and> \<not> includesStr element ''fill="none"'' \<and>
      \<not> includesStr element ''fill="transparent"'')\<close>

definition outlineCheckedText :: "string \<Rightarrow> bool" where
  "outlineCheckedText element =
     (startsWith element ''<path'' \<or> startsWith element ''<circle'' \<or>
      startsWith element ''<ellipse'' \<or> startsWith element ''<rect'' \<or>
      startsWith element ''<polygon'' \<or> startsWith element ''<polyline'')"

definition outlineStepText :: "string \<Rightarrow> bool \<times> bool \<Rightarrow> bool \<times> bool" where
  "outlineStepText element st =
     (let st1 = (if hasStrokeText element then (False, True) else st)
      in
        if outlineCheckedText element
        then (if \<not> hasFillText element \<and> \<not> hasStrokeText element then (False, snd st1) else st1)
        else st1)"

fun outlineLoopText :: "string list \<Rightarrow> bool \<times> bool \<Rightarrow> bool \<times> bool" where
  "outlineLoopText [] st = st"
| "outlineLoopText (element # rest) st = outlineLoopText rest (outlineStepText element st)"

definition isSinglePathText :: "string list \<Rightarrow> bool" where
  "isSinglePathText allElements =
     (let pathElements = filter (\<lambda>element. startsWith element ''<path'') allElements;
          (allElementsProperlyOutlined, hasStrokes) = outlineLoopText allElements (True, False);
          isSinglePathElement = (length pathElements = 1 \<and> length allElements = 1);
          isMultipleProperlyOutlinedElements =
            (length allElements > 1 \<and> allElementsProperlyOutlined \<and> \<not> hasStrokes)
      in isSinglePathElement \<or> isMultipleProperlyOutlinedElements)"

text \<open>
  The paint rewrite pattern: \<open>fill\<close> or \<open>stroke\<close>, an equals sign, a double quote not
  followed by one of the excluded prefixes, and the characters up to the next double
  quote. A match at the head of the text is returned as the attribute name and the
  length of the match.
\<close>

definition paintExcluded :: "string list" where
  "paintExcluded = [''none'', ''transparent'', ''rgba(0,0,0,0)'', ''url('', ''hsl('', ''rgb('']"

fun paintMatchAt :: "string list \<Rightarrow> string \<Rightarrow> (string \<times> nat) option" where
  \<open>paintMatchAt [] s = None\<close>
| \<open>paintMatchAt (n # ns) s =
     (if startsWith s (n @ ''="'') then
        (let rest = drop (length n + 2) s;
             run = takeWhile (\<lambda>c. c \<noteq> CHR ''"'') rest
         in if \<not> list_ex (startsWith rest) paintExcluded \<and> length run < length rest
            then Some (n, length n + 2 + length run + 1)
            else paintMatchAt ns s)
      else paintMatchAt ns s)\<close>

fun replacePaint :: "nat \<Rightarrow> string \<Rightarrow> string" where
  \<open>replacePaint skip [] = []\<close>
| \<open>replacePaint skip (c # cs) =
     (if skip > 0 then replacePaint (skip - 1) cs
      else (case paintMatchAt [''fill'', ''stroke''] (c # cs) of
              Some (n, len) \<Rightarrow> n @ ''="currentColor"'' @ replacePaint (len - 1) cs
            | None \<Rightarrow> c # replacePaint 0 cs))\<close>

text \<open>The capture group of the path pattern in a match \<open>m\<close>: the text between the prefix and the closing slash.\<close>

definition pathCapture :: "string \<Rightarrow> string" where
  "pathCapture m = take (length m - length ''<path'' - length ''/>'') (drop (length ''<path'') m)"

definition emitText :: "string \<Rightarrow> string" where
  "emitText element =
     (let transformedElement = replacePaint 0 element
      in
        if startsWith element ''<path'' then
          (case matchFirst [''<path''] transformedElement of
             Some m \<Rightarrow> formatPath (splitAttrs (trim (pathCapture m)))
           | None \<Rightarrow> transformedElement)
        else transformedElement)"

definition allElementsText :: "string \<Rightarrow> string list" where
  "allElementsText svgContent =
     (let pathMatches = matchAll [''<path''] 0 svgContent;
          circleMatches = matchAll [''<circle''] 0 svgContent;
          rectMatches = matchAll [''<rect''] 0 svgContent;
          otherMatches = matchAll [''<ellipse'', ''<line'', ''<polygon'', ''<polyline''] 0 svgContent;
          filteredRectMatches =
            filter (\<lambda>element. if isHelperRectText element then False else True) rectMatches
      in pathMatches @ circleMatches @ filteredRectMatches @ otherMatches)"

definition extractWithRegex :: "string \<Rightarrow> extracted" where
  "extractWithRegex svgContent =
     (let viewBox = (case viewBoxMatch svgContent of Some v \<Rightarrow> v | None \<Rightarrow> ''0 0 24 24'');
          allElements = allElementsText svgContent;
          isSinglePath' = isSinglePathText allElements;
          childElements = joinChildElements (map emitText allElements)
      in (viewBox, childElements, isSinglePath'))"

subsection \<open>The entry point\<close>

text \<open>The body of the outer \<open>try\<close>: an error of the structured strategy is caught inside it.\<close>

definition processSvgToReact_try :: "domParser option \<Rightarrow> string \<Rightarrow> string \<Rightarrow> jsError + processedIcon" where
  "processSvgToReact_try parser svgContent iconName =
     (let componentName' = getComponentName iconName;
          (viewBox, childElements, isSinglePath') =
            (case extractWithDOMParser parser svgContent of
               Inr r \<Rightarrow> r
             | Inl domError \<Rightarrow> extractWithRegex svgContent);
          jsx' = jsxOf viewBox childElements;
          previewSvg' = previewSvgOf viewBox childElements;
          reactCode' = reactCodeOf componentName' jsx'
      in Inr \<lparr> componentName = componentName', reactCode = reactCode', jsx = jsx',
               previewSvg = previewSvg', isSinglePath = isSinglePath' \<rparr>)"

text \<open>The handler of the outer \<open>catch\<close>.\<close>

definition fallbackJsx :: string where
  \<open>fallbackJsx =
     ''<svg'' @ nl @
     ''        width={size || 24}'' @ nl @
     ''        height={size || 24}'' @ nl @
     ''        viewBox="0 0 24 24"'' @ nl @
     ''        fill="currentColor"'' @ nl @
     ''        xmlns="http://www.w3.org/2000/svg"'' @ nl @
     ''        className={className}'' @ nl @
     ''        aria-hidden="true"'' @ nl @
     ''        ref={ref}'' @ nl @
     ''        {...props}'' @ nl @
     ''      >'' @ nl @
     ''        <path d="M12 2L2 7l10 5 10-5-10-5zM2 17l10 5 10-5M2 12l10 5 10-5" />'' @ nl @
     ''      </svg>''\<close>

definition fallbackCode :: "string \<Rightarrow> string" where
  \<open>fallbackCode componentName' =
     ''/**'' @ nl @
     '' * (c) Copyright 2025 Nominal Inc. All rights reserved.'' @ nl @
     '' */'' @ nl @
     nl @
     ''import React, { memo } from "react";'' @ nl @
     nl @
     ''import type { IconProps } from "./types";'' @ nl @
     ''// Auto-generated icon component (fallback)'' @ nl @
     ''export const '' @ componentName' @ '': React.NamedExoticComponent<IconProps> = memo('' @ nl @
     ''  function '' @ componentName' @ ''({ size = 24, className, ref, ...props }: IconProps) {'' @ nl @
     ''    return ('' @ nl @
     ''      '' @ fallbackJsx @ nl @
     ''    );'' @ nl @
     ''  },'' @ nl @
     '');'' @ nl @
     componentName' @ ''.displayName = "'' @ componentName' @ ''";'' @ nl @
     ''export { '' @ componentName' @ '' as ReactComponent };''\<close>

definition processSvgToReact_catch :: "string \<Rightarrow> processedIcon" where
  "processSvgToReact_catch iconName =
     (let componentName' = getComponentName iconName
      in \<lparr> componentName = componentName', reactCode = fallbackCode componentName',
           jsx = fallbackJsx, previewSvg = fallbackJsx, isSinglePath = False \<rparr>)"

definition processSvgToReact :: "domParser option \<Rightarrow> string \<Rightarrow> string \<Rightarrow> processedIcon" where
  "processSvgToReact parser svgContent iconName =
     (case processSvgToReact_try parser svgContent iconName of
        Inr icon \<Rightarrow> icon
      | Inl error \<Rightarrow> processSvgToReact_catch iconName)"

section \<open>Stroke outliner\<close>

text \<open>
  The numbers of the source are IEEE double-precision values. Their arithmetic, the
  mathematical functions, \<open>parseFloat\<close> and the conversion of a number to text in a
  template literal are taken as a parameter: a record of operations on a type
  \<open>'n\<close> of numbers.
\<close>

record 'n numberOps =
  parseFloat :: "string \<Rightarrow> 'n"
  numToString :: "'n \<Rightarrow> string"
  numLit :: "nat \<Rightarrow> 'n"
  numAdd :: "'n \<Rightarrow> 'n \<Rightarrow> 'n"
  numSub :: "'n \<Rightarrow> 'n \<Rightarrow> 'n"
  numMul :: "'n \<Rightarrow> 'n \<Rightarrow> 'n"
  numDiv :: "'n \<Rightarrow> 'n \<Rightarrow> 'n"
  numPow :: "'n \<Rightarrow> 'n \<Rightarrow> 'n"
  numLe :: "'n \<Rightarrow> 'n \<Rightarrow> bool"
  mathMax :: "'n \<Rightarrow> 'n \<Rightarrow> 'n"
  mathSqrt :: "'n \<Rightarrow> 'n"
  mathAtan2 :: "'n \<Rightarrow> 'n \<Rightarrow> 'n"
  mathCos :: "'n \<Rightarrow> 'n"
  mathSin :: "'n \<Rightarrow> 'n"

text \<open>\<open>parseFloat(element.getAttribute(name) || d)\<close>\<close>

definition numAttr :: "'n numberOps \<Rightarrow> element \<Rightarrow> string \<Rightarrow> string \<Rightarrow> 'n" where
  "numAttr N element name d = parseFloat N (orElse (getAttribute element name) d)"

definition outlineLine :: "'n numberOps \<Rightarrow> element \<Rightarrow> string \<Rightarrow> string" where
  "outlineLine N element strokeWidth =
     (let x1 = numAttr N element ''x1'' ''0'';
          y1 = numAttr N element ''y1'' ''0'';
          x2 = numAttr N element ''x2'' ''0'';
          y2 = numAttr N element ''y2'' ''0'';
          width = parseFloat N strokeWidth;
          angle = mathAtan2 N (numSub N y2 y1) (numSub N x2 x1);
          length' = mathSqrt N (numAdd N (numPow N (numSub N x2 x1) (numLit N 2))
                                        (numPow N (numSub N y2 y1) (numLit N 2)));
          halfWidth = numDiv N width (numLit N 2);
          cos' = mathCos N angle;
          sin' = mathSin N angle;
          x1a = numSub N x1 (numMul N halfWidth sin');
          y1a = numAdd N y1 (numMul N halfWidth cos');
          x1b = numAdd N x1 (numMul N halfWidth sin');
          y1b = numSub N y1 (numMul N halfWidth cos');
          x2a = numSub N x2 (numMul N halfWidth sin');
          y2a = numAdd N y2 (numMul N halfWidth cos');
          x2b = numAdd N x2 (numMul N halfWidth sin');
          y2b = numSub N y2 (numMul N halfWidth cos');
          str = numToString N
      in ''M '' @ str x1a @ '' '' @ str y1a @ '' L '' @ str x2a @ '' '' @ str y2a @
         '' L '' @ str x2b @ '' '' @ str y2b @ '' L '' @ str x1b @ '' '' @ str y1b @ '' Z'')"

definition outlineCircle :: "'n numberOps \<Rightarrow> element \<Rightarrow> string \<Rightarrow> string" where
  "outlineCircle N element strokeWidth =
     (let cx = numAttr N element ''cx'' ''0'';
          cy = numAttr N element ''cy'' ''0'';
          r = numAttr N element ''r'' ''0'';
          width = parseFloat N strokeWidth;
          outerR = numAdd N r (numDiv N width (numLit N 2));
          innerR = mathMax N (numLit N 0) (numSub N r (numDiv N width (numLit N 2)));
          str = numToString N
      in
        if numLe N innerR (numLit N 0) then
          ''M '' @ str cx @ '' '' @ str (numSub N cy outerR) @
          '' A '' @ str outerR @ '' '' @ str outerR @ '' 0 1 1 '' @ str cx @ '' '' @
          str (numAdd N cy outerR) @
          '' A '' @ str outerR @ '' '' @ str outerR @ '' 0 1 1 '' @ str cx @ '' '' @
          str (numSub N cy outerR) @ '' Z''
        else
          ''M '' @ str cx @ '' '' @ str (numSub N cy outerR) @
          '' A '' @ str outerR @ '' '' @ str outerR @ '' 0 1 1 '' @ str cx @ '' '' @
          str (numAdd N cy outerR) @
          '' A '' @ str outerR @ '' '' @ str outerR @ '' 0 1 1 '' @ str cx @ '' '' @
          str (numSub N cy outerR) @ '' Z M '' @ str cx @ '' '' @ str (numSub N cy innerR) @
          '' A '' @ str innerR @ '' '' @ str innerR @ '' 0 1 0 '' @ str cx @ '' '' @
          str (numAdd N cy innerR) @
          '' A '' @ str innerR @ '' '' @ str innerR @ '' 0 1 0 '' @ str cx @ '' '' @
          str (numSub N cy innerR) @ '' Z'')"

definition outlineRect :: "'n numberOps \<Rightarrow> element \<Rightarrow> string" where
  "outlineRect N element =
     (let x = numAttr N element ''x'' ''0'';
          y = numAttr N element ''y'' ''0'';
          width = numAttr N element ''width'' ''0'';
          height = numAttr N element ''height'' ''0'';
          strokeWidth = numAttr N element ''stroke-width'' ''1'';
          halfStroke = numDiv N strokeWidth (numLit N 2);
          outerX = numSub N x halfStroke;
          outerY = numSub N y halfStroke;
          outerWidth = numAdd N width strokeWidth;
          outerHeight = numAdd N height strokeWidth;
          innerX = numAdd N x halfStroke;
          innerY = numAdd N y halfStroke;
          innerWidth = mathMax N (numLit N 0) (numSub N width strokeWidth);
          innerHeight = mathMax N (numLit N 0) (numSub N height strokeWidth);
          str = numToString N
      in
        if numLe N innerWidth (numLit N 0) \<or> numLe N innerHeight (numLit N 0) then
          ''M '' @ str outerX @ '' '' @ str outerY @
          '' L '' @ str (numAdd N outerX outerWidth) @ '' '' @ str outerY @
          '' L '' @ str (numAdd N outerX outerWidth) @ '' '' @ str (numAdd N outerY outerHeight) @
          '' L '' @ str outerX @ '' '' @ str (numAdd N outerY outerHeight) @ '' Z''
        else
          ''M '' @ str outerX @ '' '' @ str outerY @
          '' L '' @ str (numAdd N outerX outerWidth) @ '' '' @ str outerY @
          '' L '' @ str (numAdd N outerX outerWidth) @ '' '' @ str (numAdd N outerY outerHeight) @
          '' L '' @ str outerX @ '' '' @ str (numAdd N outerY outerHeight) @
          '' Z M '' @ str innerX @ '' '' @ str innerY @
          '' L '' @ str innerX @ '' '' @ str (numAdd N innerY innerHeight) @
          '' L '' @ str (numAdd N innerX innerWidth) @ '' '' @ str (numAdd N innerY innerHeight) @
          '' L '' @ str (numAdd N innerX innerWidth) @ '' '' @ str innerY @ '' Z'')"

text \<open>\<open>!stroke\<close>: the attribute is absent or empty.\<close>

definition falsy :: "string option \<Rightarrow> bool" where
  "falsy x = (x = None \<or> x = Some [])"

definition strokeToOutline :: "'n numberOps \<Rightarrow> element \<Rightarrow> string option" where
  "strokeToOutline N element =
     (let tagName' = toLowerCase (tagName element);
          stroke = getAttribute element ''stroke'';
          strokeWidth = orElse (getAttribute element ''stroke-width'') ''1''
      in
        if falsy stroke \<or> stroke = Some ''none'' \<or> stroke = Some ''transparent'' then None
        else if tagName' = ''line'' then Some (outlineLine N element strokeWidth)
        else if tagName' = ''circle'' then Some (outlineCircle N element strokeWidth)
        else if tagName' = ''rect'' then Some (outlineRect N element)
        else getAttribute element ''d'')"

text \<open>
  The body of the loop of \<open>flattenSvgPaths\<close> over the relevant elements: the path data
  pushed for one element, \<open>None\<close> when nothing is pushed.
\<close>

definition truthy :: "string option \<Rightarrow> string option" where
  "truthy x = (if falsy x then None else x)"

definition pathDataOf :: "'n numberOps \<Rightarrow> element \<Rightarrow> string option" where
  "pathDataOf N element =
     (let tagName' = toLowerCase (tagName element)
      in
        if tagName' = ''path'' then
          (let stroke = getAttribute element ''stroke''
           in if \<not> falsy stroke \<and> stroke \<noteq> Some ''none'' \<and> stroke \<noteq> Some ''transparent''
              then truthy (getAttribute element ''d'')
              else truthy (getAttribute element ''d''))
        else
          (let strokeOutline = strokeToOutline N element
           in if \<not> falsy strokeOutline then strokeOutline
              else truthy (getAttribute element ''d'')))"

section \<open>Example documents\<close>

text \<open>
  Markup texts and the \<open>svg\<close> elements a document parser finds in them, used to
  evaluate the functions above on concrete inputs.
\<close>

definition arrowMarkup :: string where
  \<open>arrowMarkup =
     ''<svg viewBox="0 0 24 24"><rect width="24" height="24" fill="#ffffff"/><path d="M5 12h14" fill="#000000"/></svg>''\<close>

definition arrowDoc :: element where
  "arrowDoc =
     Element ''svg'' [(''viewBox'', ''0 0 24 24'')]
       [Element ''rect'' [(''width'', ''24''), (''height'', ''24''), (''fill'', ''#ffffff'')] [],
        Element ''path'' [(''d'', ''M5 12h14''), (''fill'', ''#000000'')] []]"

definition twoLinesMarkup :: string where
  \<open>twoLinesMarkup =
     ''<svg viewBox="0 0 24 24"><line x1="4" y1="4" x2="20" y2="4"/><line x1="4" y1="20" x2="20" y2="20"/></svg>''\<close>

definition twoLinesDoc :: element where
  "twoLinesDoc =
     Element ''svg'' [(''viewBox'', ''0 0 24 24'')]
       [Element ''line'' [(''x1'', ''4''), (''y1'', ''4''), (''x2'', ''20''), (''y2'', ''4'')] [],
        Element ''line'' [(''x1'', ''4''), (''y1'', ''20''), (''x2'', ''20''), (''y2'', ''20'')] []]"

definition groupMarkup :: string where
  \<open>groupMarkup =
     ''<svg viewBox="0 0 24 24"><g><path d="M5 12h14" fill="#000000"/></g></svg>''\<close>

definition groupDoc :: element where
  "groupDoc =
     Element ''svg'' [(''viewBox'', ''0 0 24 24'')]
       [Element ''g'' []
          [Element ''path'' [(''d'', ''M5 12h14''), (''fill'', ''#000000'')] []]]"

definition strokedPathMarkup :: string where
  \<open>strokedPathMarkup =
     ''<svg viewBox="0 0 24 24"><path d="M5 12h14" stroke="#000000"/></svg>''\<close>

definition strokedPathDoc :: element where
  "strokedPathDoc =
     Element ''svg'' [(''viewBox'', ''0 0 24 24'')]
       [Element ''path'' [(''d'', ''M5 12h14''), (''stroke'', ''#000000'')] []]"







section \<open>A number model for evaluation\<close>

text \<open>
  Exact rational arithmetic with \<open>None\<close> for \<open>NaN\<close>. It agrees with double arithmetic
  as long as every value is an integer or a half of moderate size; numerals are read
  and written as decimal integers and halves only, and the mathematical functions are
  given at the arguments where their value is rational.
\<close>

definition digitChar :: "nat \<Rightarrow> char" where
  "digitChar d = char_of (48 + d)"

function showNat :: "nat \<Rightarrow> string" where
  "showNat n = (if n < 10 then [digitChar n] else showNat (n div 10) @ [digitChar (n mod 10)])"
  by pat_completeness auto
termination
  by (relation "measure id") auto

definition showRat :: "rat \<Rightarrow> string" where
  "showRat q =
     (let (a, b) = quotient_of q;
          sign = (if a < 0 then ''-'' else [])
      in if b = 1 then sign @ showNat (nat \<bar>a\<bar>)
         else if b = 2 then sign @ showNat (nat \<bar>a\<bar> div 2) @ ''.5''
         else ''?'')"

definition digitValue :: "char \<Rightarrow> nat option" where
  "digitValue c =
     (if 48 \<le> (of_char c :: nat) \<and> (of_char c :: nat) \<le> 57 then Some (of_char c - 48) else None)"

fun readNat :: "nat \<Rightarrow> string \<Rightarrow> nat option" where
  "readNat acc [] = Some acc"
| "readNat acc (c # cs) =
     (case digitValue c of None \<Rightarrow> None | Some d \<Rightarrow> readNat (10 * acc + d) cs)"

definition readRat :: "string \<Rightarrow> rat option" where
  "readRat s =
     (case s of
        [] \<Rightarrow> None
      | c # cs \<Rightarrow>
          if c = CHR ''-'' then (if cs = [] then None else map_option (\<lambda>n. - of_nat n) (readNat 0 cs))
          else map_option of_nat (readNat 0 s))"

definition lift2 :: "(rat \<Rightarrow> rat \<Rightarrow> rat) \<Rightarrow> rat option \<Rightarrow> rat option \<Rightarrow> rat option" where
  "lift2 f x y = (case (x, y) of (Some a, Some b) \<Rightarrow> Some (f a b) | _ \<Rightarrow> None)"

definition rationalOps :: "rat option numberOps" where
  "rationalOps =
     \<lparr> parseFloat = readRat,
       numToString = (\<lambda>x. case x of None \<Rightarrow> ''NaN'' | Some q \<Rightarrow> showRat q),
       numLit = (\<lambda>n. Some (of_nat n)),
       numAdd = lift2 (+),
       numSub = lift2 (-),
       numMul = lift2 (*),
       numDiv = (\<lambda>x y. if y = Some 0 then None else lift2 (/) x y),
       numPow = (\<lambda>x y. if y = Some 2 then lift2 (*) x x else None),
       numLe = (\<lambda>x y. case (x, y) of (Some a, Some b) \<Rightarrow> a \<le> b | _ \<Rightarrow> False),
       mathMax = lift2 max,
       mathSqrt = (\<lambda>x. if x = Some 0 then Some 0 else None),
       mathAtan2 = (\<lambda>y x. case (y, x) of (Some a, Some b) \<Rightarrow> (if a = 0 \<and> 0 < b then Some 0 else None) | _ \<Rightarrow> None),
       mathCos = (\<lambda>x. if x = Some 0 then Some 1 else None),
       mathSin = (\<lambda>x. if x = Some 0 then Some 0 else None) \<rparr>"

definition ringCircle :: element where
  "ringCircle =
     Element ''circle'' [(''cx'', ''12''), (''cy'', ''12''), (''r'', ''9''),
       (''stroke'', ''#000000''), (''stroke-width'', ''2'')] []"

definition discCircle :: element where
  "discCircle =
     Element ''circle'' [(''cx'', ''12''), (''cy'', ''12''), (''r'', ''1''),
       (''stroke'', ''#000000''), (''stroke-width'', ''3'')] []"

definition flatLine :: element where
  "flatLine =
     Element ''line'' [(''x1'', ''4''), (''y1'', ''4''), (''x2'', ''20''), (''y2'', ''4''),
       (''stroke'', ''#000000''), (''stroke-width'', ''2'')] []"

definition strokedPath :: element where
  "strokedPath = Element ''path'' [(''d'', ''M5 12h14''), (''stroke'', ''#000000'')] []"

definition plainCircle :: element where
  "plainCircle = Element ''circle'' [(''cx'', ''12''), (''cy'', ''12''), (''r'', ''9'')] []"

section \<open>Notions used in the statements\<close>



text \<open>
  One closed circular sub-path of radius \<open>r\<close> around \<open>(cx, cy)\<close>: from the top point by
  two half-circle arcs with the given sweep flag through the bottom point back to the
  top point.
\<close>

definition circleSubpath :: "'n numberOps \<Rightarrow> 'n \<Rightarrow> 'n \<Rightarrow> 'n \<Rightarrow> string \<Rightarrow> string" where
  "circleSubpath N cx cy r sweep =
     (let str = numToString N
      in ''M '' @ str cx @ '' '' @ str (numSub N cy r) @
         '' A '' @ str r @ '' '' @ str r @ '' 0 1 '' @ sweep @ '' '' @ str cx @ '' '' @
         str (numAdd N cy r) @
         '' A '' @ str r @ '' '' @ str r @ '' 0 1 '' @ sweep @ '' '' @ str cx @ '' '' @
         str (numSub N cy r) @ '' Z'')"

section \<open>Properties of the flatness evaluator\<close>

lemma outlineLoop_eq:
  "outlineLoop es st =
     (fst st \<and> list_all (\<lambda>e. \<not> hasStroke e \<and>
         (toLowerCase (tagName e) \<in> set outlineCheckedTags \<longrightarrow> hasFill e)) es,
      snd st \<or> list_ex hasStroke es)"
  by (induction es arbitrary: st) (auto simp: outlineStep_def Let_def)

lemma isSinglePathOf_iff:
  "isSinglePathOf es \<longleftrightarrow>
     \<not> list_ex (\<lambda>e. children e \<noteq> []) es \<and>
     ((\<exists>e. es = [e] \<and> toLowerCase (tagName e) = ''path'') \<or>
      (length es > 1 \<and>
       (\<forall>e\<in>set es. toLowerCase (tagName e) \<in> set outlineCheckedTags \<longrightarrow> hasFill e \<or> hasStroke e) \<and>
       (\<forall>e\<in>set es. \<not> hasStroke e)))"
proof -
  have single: "(length (filter (\<lambda>e. toLowerCase (tagName e) = ''path'') es) = 1 \<and> length es = 1)
      \<longleftrightarrow> (\<exists>e. es = [e] \<and> toLowerCase (tagName e) = ''path'')"
    by (cases es) (auto simp: length_Suc_conv)
  show ?thesis
    unfolding isSinglePathOf_def Let_def outlineLoop_eq split_conv fst_conv snd_conv single
    by (auto simp: list_ex_iff list_all_iff)
qed

lemma outlineLoopText_eq:
  "outlineLoopText xs st =
     (fst st \<and> list_all (\<lambda>x. \<not> hasStrokeText x \<and> (outlineCheckedText x \<longrightarrow> hasFillText x)) xs,
      snd st \<or> list_ex hasStrokeText xs)"
  by (induction xs arbitrary: st) (auto simp: outlineStepText_def Let_def)

lemma isSinglePathText_iff:
  "isSinglePathText xs \<longleftrightarrow>
     ((\<exists>x. xs = [x] \<and> startsWith x ''<path'') \<or>
      (length xs > 1 \<and>
       (\<forall>x\<in>set xs. outlineCheckedText x \<longrightarrow> hasFillText x \<or> hasStrokeText x) \<and>
       (\<forall>x\<in>set xs. \<not> hasStrokeText x)))"
proof -
  have single: "(length (filter (\<lambda>x. startsWith x ''<path'') xs) = 1 \<and> length xs = 1)
      \<longleftrightarrow> (\<exists>x. xs = [x] \<and> startsWith x ''<path'')"
    by (cases xs) (auto simp: length_Suc_conv)
  show ?thesis
    unfolding isSinglePathText_def Let_def outlineLoopText_eq split_conv fst_conv snd_conv single
    by (auto simp: list_ex_iff list_all_iff)
qed


lemma isSinglePath_structured:
  "parser = Some parseSvg \<Longrightarrow> parseSvg svgContent = Some svgElement \<Longrightarrow>
   isSinglePath (processSvgToReact parser svgContent iconName) =
     isSinglePathOf (mainElementsOf svgElement)"
  by (simp add: processSvgToReact_def processSvgToReact_try_def extractWithDOMParser_def
      extractFromSvgElement_def Let_def)

lemma isSinglePath_textual:
  "parser = None \<or> (\<exists>p. parser = Some p \<and> p svgContent = None) \<Longrightarrow>
   isSinglePath (processSvgToReact parser svgContent iconName) =
     isSinglePathText (allElementsText svgContent)"
  by (auto simp add: processSvgToReact_def processSvgToReact_try_def extractWithDOMParser_def
      extractWithRegex_def Let_def)

lemma mainElementsOf_arrowDoc:
  "mainElementsOf arrowDoc = [Element ''path'' [(''d'', ''M5 12h14''), (''fill'', ''#000000'')] []]"
  by code_simp

lemma mainElementsOf_twoLinesDoc:
  "mainElementsOf twoLinesDoc =
     [Element ''line'' [(''x1'', ''4''), (''y1'', ''4''), (''x2'', ''20''), (''y2'', ''4'')] [],
      Element ''line'' [(''x1'', ''4''), (''y1'', ''20''), (''x2'', ''20''), (''y2'', ''20'')] []]"
  by code_simp

lemma mainElementsOf_groupDoc:
  "mainElementsOf groupDoc =
     [Element ''g'' [] [Element ''path'' [(''d'', ''M5 12h14''), (''fill'', ''#000000'')] []]]"
  by code_simp

lemma mainElementsOf_strokedPathDoc:
  "mainElementsOf strokedPathDoc =
     [Element ''path'' [(''d'', ''M5 12h14''), (''stroke'', ''#000000'')] []]"
  by code_simp

lemma allElementsText_arrowMarkup:
  \<open>allElementsText arrowMarkup = [''<path d="M5 12h14" fill="#000000"/>'']\<close>
  by code_simp

text \<open>
  C1, as amended. Under the structured strategy \<open>isSinglePath\<close> holds exactly when no
  principal element has child elements and either there is exactly one principal
  element and it is a path, or there are more than one, every one of them whose tag is
  path, circle, ellipse, rect, polygon or polyline declares a usable fill or stroke, and
  none carries a stroke other than none or transparent. Under the text-pattern strategy
  the same holds of the matched element texts, with the textual tests (a matched text is
  self-closing and has no nested element).
\<close>

theorem isSinglePath_classification:
  "(parser = Some parseSvg \<and> parseSvg svgContent = Some svgElement \<longrightarrow>
      (isSinglePath (processSvgToReact parser svgContent iconName) \<longleftrightarrow>
         \<not> list_ex (\<lambda>e. children e \<noteq> []) (mainElementsOf svgElement) \<and>
         ((\<exists>e. mainElementsOf svgElement = [e] \<and> toLowerCase (tagName e) = ''path'') \<or>
          (length (mainElementsOf svgElement) > 1 \<and>
           (\<forall>e\<in>set (mainElementsOf svgElement).
              toLowerCase (tagName e) \<in> set outlineCheckedTags \<longrightarrow> hasFill e \<or> hasStroke e) \<and>
           (\<forall>e\<in>set (mainElementsOf svgElement). \<not> hasStroke e))))) \<and>
   (parser = None \<or> (\<exists>p. parser = Some p \<and> p svgContent = None) \<longrightarrow>
      (isSinglePath (processSvgToReact parser svgContent iconName) \<longleftrightarrow>
         ((\<exists>x. allElementsText svgContent = [x] \<and> startsWith x ''<path'') \<or>
          (length (allElementsText svgContent) > 1 \<and>
           (\<forall>x\<in>set (allElementsText svgContent).
              outlineCheckedText x \<longrightarrow> hasFillText x \<or> hasStrokeText x) \<and>
           (\<forall>x\<in>set (allElementsText svgContent). \<not> hasStrokeText x)))))"
proof (intro conjI impI)
  assume "parser = Some parseSvg \<and> parseSvg svgContent = Some svgElement"
  then have "isSinglePath (processSvgToReact parser svgContent iconName) =
      isSinglePathOf (mainElementsOf svgElement)"
    by (simp add: isSinglePath_structured)
  then show "isSinglePath (processSvgToReact parser svgContent iconName) \<longleftrightarrow>
         \<not> list_ex (\<lambda>e. children e \<noteq> []) (mainElementsOf svgElement) \<and>
         ((\<exists>e. mainElementsOf svgElement = [e] \<and> toLowerCase (tagName e) = ''path'') \<or>
          (length (mainElementsOf svgElement) > 1 \<and>
           (\<forall>e\<in>set (mainElementsOf svgElement).
              toLowerCase (tagName e) \<in> set outlineCheckedTags \<longrightarrow> hasFill e \<or> hasStroke e) \<and>
           (\<forall>e\<in>set (mainElementsOf svgElement). \<not> hasStroke e)))"
    by (simp only: isSinglePathOf_iff)
next
  assume "parser = None \<or> (\<exists>p. parser = Some p \<and> p svgContent = None)"
  then have "isSinglePath (processSvgToReact parser svgContent iconName) =
      isSinglePathText (allElementsText svgContent)"
    by (rule isSinglePath_textual)
  then show "isSinglePath (processSvgToReact parser svgContent iconName) \<longleftrightarrow>
         ((\<exists>x. allElementsText svgContent = [x] \<and> startsWith x ''<path'') \<or>
          (length (allElementsText svgContent) > 1 \<and>
           (\<forall>x\<in>set (allElementsText svgContent).
              outlineCheckedText x \<longrightarrow> hasFillText x \<or> hasStrokeText x) \<and>
           (\<forall>x\<in>set (allElementsText svgContent). \<not> hasStrokeText x)))"
    by (simp only: isSinglePathText_iff)
qed

theorem isSinglePath_classification_witness:
  "isSinglePath (processSvgToReact (Some (\<lambda>s. Some arrowDoc)) arrowMarkup ''arrow-right'') \<and>
   isSinglePath (processSvgToReact None arrowMarkup ''arrow-right'')"
proof -
  have p: "toLowerCase ''path'' = ''path''"
    by code_simp
  have s: \<open>startsWith ''<path d="M5 12h14" fill="#000000"/>'' ''<path''\<close>
    by code_simp
  show ?thesis
    using isSinglePath_classification [of "Some (\<lambda>s. Some arrowDoc)" "\<lambda>s. Some arrowDoc"
        arrowMarkup arrowDoc "''arrow-right''"]
      isSinglePath_classification [of None "\<lambda>s. None" arrowMarkup arrowDoc "''arrow-right''"]
    by (simp add: mainElementsOf_arrowDoc allElementsText_arrowMarkup p s)
qed

text \<open>
  C1 as stated fails: two line elements that declare neither a fill nor a stroke are
  not well-formed, yet the document is classified as flattened, since the
  well-formedness test is applied to path, circle, ellipse, rect, polygon and polyline
  elements only.
\<close>

theorem isSinglePath_classification_counterexample:
  "\<not> (isSinglePath (processSvgToReact (Some (\<lambda>s. Some twoLinesDoc)) twoLinesMarkup ''lines'') \<longleftrightarrow>
        \<not> list_ex (\<lambda>e. children e \<noteq> []) (mainElementsOf twoLinesDoc) \<and>
        ((case mainElementsOf twoLinesDoc of [e] \<Rightarrow> toLowerCase (tagName e) = ''path'' | _ \<Rightarrow> False) \<or>
         (length (mainElementsOf twoLinesDoc) > 1 \<and>
          list_all (\<lambda>e. hasFill e \<or> hasStroke e) (mainElementsOf twoLinesDoc) \<and>
          \<not> list_ex hasStroke (mainElementsOf twoLinesDoc))))"
  by code_simp

text \<open>
  C10. Under the structured strategy, when the principal elements are exactly one path
  element without child elements, \<open>isSinglePath\<close> is true, whatever stroke the path
  carries: the stroke flags are consulted in the branch for several elements only.
\<close>

theorem single_path_ignores_stroke:
  assumes "parser = Some parseSvg" and "parseSvg svgContent = Some svgElement"
    and "mainElementsOf svgElement = [e]" and "toLowerCase (tagName e) = ''path''"
    and "children e = []"
  shows "isSinglePath (processSvgToReact parser svgContent iconName)"
proof -
  have "isSinglePath (processSvgToReact parser svgContent iconName) =
      isSinglePathOf (mainElementsOf svgElement)"
    using assms(1,2) by (rule isSinglePath_structured)
  moreover have "isSinglePathOf [e]"
    using assms(4,5) by (simp add: isSinglePathOf_iff)
  ultimately show ?thesis
    using assms(3) by simp
qed

theorem single_path_ignores_stroke_witness:
  "hasStroke (Element ''path'' [(''d'', ''M5 12h14''), (''stroke'', ''#000000'')] []) \<and>
   isSinglePath
     (processSvgToReact (Some (\<lambda>s. Some strokedPathDoc)) strokedPathMarkup ''stroked'')"
proof -
  have "hasStroke (Element ''path'' [(''d'', ''M5 12h14''), (''stroke'', ''#000000'')] [])"
    by code_simp
  moreover have "toLowerCase ''path'' = ''path''"
    by code_simp
  ultimately show ?thesis
    using single_path_ignores_stroke [of "Some (\<lambda>s. Some strokedPathDoc)"
        "\<lambda>s. Some strokedPathDoc" strokedPathMarkup strokedPathDoc
        "Element ''path'' [(''d'', ''M5 12h14''), (''stroke'', ''#000000'')] []" "''stroked''"]
    by (simp add: mainElementsOf_strokedPathDoc)
qed

text \<open>
  C3, as amended. Under the structured strategy, a document in which a principal
  element has child elements is never classified as flattened.
\<close>

theorem nested_element_not_single:
  assumes "parser = Some parseSvg" and "parseSvg svgContent = Some svgElement"
    and "\<exists>e\<in>set (mainElementsOf svgElement). children e \<noteq> []"
  shows "\<not> isSinglePath (processSvgToReact parser svgContent iconName)"
proof -
  have "isSinglePath (processSvgToReact parser svgContent iconName) =
      isSinglePathOf (mainElementsOf svgElement)"
    using assms(1,2) by (rule isSinglePath_structured)
  moreover have "\<not> isSinglePathOf (mainElementsOf svgElement)"
    using assms(3) by (simp add: isSinglePathOf_iff list_ex_iff)
  ultimately show ?thesis
    by simp
qed

theorem nested_element_not_single_witness:
  "\<not> isSinglePath (processSvgToReact (Some (\<lambda>s. Some groupDoc)) groupMarkup ''group'')"
  using nested_element_not_single [of "Some (\<lambda>s. Some groupDoc)" "\<lambda>s. Some groupDoc"
      groupMarkup groupDoc "''group''"]
  by (simp add: mainElementsOf_groupDoc)

text \<open>
  C3 as stated fails under the text-pattern strategy, which has no test for nested
  elements: for the markup \<open>groupMarkup\<close>, whose document is \<open>groupDoc\<close>, the only
  principal element of the document is a group with a child element, and the text
  strategy classifies the markup as flattened.
\<close>

theorem nested_element_not_single_counterexample:
  "list_ex (\<lambda>e. children e \<noteq> []) (mainElementsOf groupDoc) \<and>
   isSinglePath (processSvgToReact None groupMarkup ''group'')"
  by code_simp

section \<open>Properties of the shape classifier\<close>

lemma startsWith_iff: "startsWith s p \<longleftrightarrow> (\<exists>post. s = p @ post)"
proof
  assume "startsWith s p"
  then have "s = p @ drop (length p) s"
    by (metis append_take_drop_id startsWith_def)
  then show "\<exists>post. s = p @ post" ..
next
  assume "\<exists>post. s = p @ post"
  then show "startsWith s p"
    by (auto simp: startsWith_def)
qed

lemma includesStr_iff: "includesStr s sub \<longleftrightarrow> (\<exists>pre post. s = pre @ sub @ post)"
proof (induction s)
  case Nil
  then show ?case by auto
next
  case (Cons c cs)
  show ?case
  proof
    assume "includesStr (c # cs) sub"
    then consider "startsWith (c # cs) sub" | "includesStr cs sub"
      by auto
    then show "\<exists>pre post. c # cs = pre @ sub @ post"
    proof cases
      case 1
      then obtain post where "c # cs = sub @ post"
        by (auto simp: startsWith_iff)
      then have "c # cs = [] @ sub @ post" by simp
      then show ?thesis by blast
    next
      case 2
      then obtain pre post where "cs = pre @ sub @ post"
        using Cons.IH by blast
      then have "c # cs = (c # pre) @ sub @ post" by simp
      then show ?thesis by blast
    qed
  next
    assume "\<exists>pre post. c # cs = pre @ sub @ post"
    then obtain pre post where eq: "c # cs = pre @ sub @ post"
      by blast
    show "includesStr (c # cs) sub"
    proof (cases pre)
      case Nil
      with eq have "startsWith (c # cs) sub"
        by (auto simp: startsWith_iff)
      then show ?thesis by simp
    next
      case (Cons d pre')
      with eq have "cs = pre' @ sub @ post" by simp
      then have "includesStr cs sub"
        using Cons.IH by blast
      then show ?thesis by simp
    qed
  qed
qed






section \<open>Properties of the component synthesizer\<close>
















lemma fallbackJsx_eq:
  \<open>fallbackJsx =
     jsxOf ''0 0 24 24''
       ''<path d="M12 2L2 7l10 5 10-5-10-5zM2 17l10 5 10-5M2 12l10 5 10-5" />''\<close>
  by (simp add: fallbackJsx_def jsxOf_def)



lemma includesStr_mid: "includesStr x t \<Longrightarrow> includesStr (a @ x @ b) t"
proof -
  assume "includesStr x t"
  then obtain pre post where "x = pre @ t @ post"
    by (auto simp: includesStr_iff)
  then have "a @ x @ b = (a @ pre) @ t @ (post @ b)"
    by simp
  then show ?thesis
    unfolding includesStr_iff by blast
qed




lemma jsxOf_placeholders:
  "includesStr (jsxOf viewBox childElements) ''{size || 24}''"
  "includesStr (jsxOf viewBox childElements) ''{className}''"
  "includesStr (jsxOf viewBox childElements) ''{ref}''"
  "includesStr (jsxOf viewBox childElements) ''{...props}''"
proof -
  have lit: "includesStr ''        width={size || 24}'' ''{size || 24}''"
    "includesStr ''        className={className}'' ''{className}''"
    "includesStr ''        ref={ref}'' ''{ref}''"
    "includesStr ''        {...props}'' ''{...props}''"
    by code_simp+
  show "includesStr (jsxOf viewBox childElements) ''{size || 24}''"
    unfolding jsxOf_def using includesStr_mid [OF lit(1), of "''<svg'' @ nl"]
    by simp
  show "includesStr (jsxOf viewBox childElements) ''{className}''"
    unfolding jsxOf_def
    using includesStr_mid [OF lit(2), of \<open>''<svg'' @ nl @
     ''        width={size || 24}'' @ nl @
     ''        height={size || 24}'' @ nl @
     ''        viewBox="'' @ viewBox @ ''"'' @ nl @
     ''        fill="currentColor"'' @ nl @
     ''        xmlns="http://www.w3.org/2000/svg"'' @ nl\<close>]
    by simp
  show "includesStr (jsxOf viewBox childElements) ''{ref}''"
    unfolding jsxOf_def
    using includesStr_mid [OF lit(3), of \<open>''<svg'' @ nl @
     ''        width={size || 24}'' @ nl @
     ''        height={size || 24}'' @ nl @
     ''        viewBox="'' @ viewBox @ ''"'' @ nl @
     ''        fill="currentColor"'' @ nl @
     ''        xmlns="http://www.w3.org/2000/svg"'' @ nl @
     ''        className={className}'' @ nl @
     ''        aria-hidden="true"'' @ nl\<close>]
    by simp
  show "includesStr (jsxOf viewBox childElements) ''{...props}''"
    unfolding jsxOf_def
    using includesStr_mid [OF lit(4), of \<open>''<svg'' @ nl @
     ''        width={size || 24}'' @ nl @
     ''        height={size || 24}'' @ nl @
     ''        viewBox="'' @ viewBox @ ''"'' @ nl @
     ''        fill="currentColor"'' @ nl @
     ''        xmlns="http://www.w3.org/2000/svg"'' @ nl @
     ''        className={className}'' @ nl @
     ''        aria-hidden="true"'' @ nl @
     ''        ref={ref}'' @ nl\<close>]
    by simp
qed




text \<open>
  The handler of the outer \<open>catch\<close> returns the embeddable markup as its preview, so
  the preview of the fallback component carries the placeholder tokens.
\<close>

lemma catch_previewSvg_placeholders:
  "previewSvg (processSvgToReact_catch iconName) = jsx (processSvgToReact_catch iconName) \<and>
   includesStr (previewSvg (processSvgToReact_catch iconName)) ''{size || 24}'' \<and>
   includesStr (previewSvg (processSvgToReact_catch iconName)) ''{ref}''"
  using jsxOf_placeholders(1,3)
  by (simp add: processSvgToReact_catch_def Let_def fallbackJsx_eq)

section \<open>Paint normalization\<close>

subsection \<open>The tokenizer returns well-formed attributes unchanged\<close>








subsection \<open>The textual rewrite\<close>








subsection \<open>Both strategies\<close>







section \<open>Properties of the stroke outliner\<close>

lemma rationalOps_max:
  "numLe rationalOps (mathMax rationalOps (numLit rationalOps 0) x) (numLit rationalOps 0) =
     numLe rationalOps x (numLit rationalOps 0)"
  "\<not> numLe rationalOps x (numLit rationalOps 0) \<Longrightarrow>
     mathMax rationalOps (numLit rationalOps 0) x = x"
  by (auto simp: rationalOps_def lift2_def split: option.splits)

text \<open>
  The outline of a horizontal line of width 2 from \<open>(4, 4)\<close> to \<open>(20, 4)\<close> is the
  rectangle between the heights 3 and 5.
\<close>

lemma flatLine_outline:
  "strokeToOutline rationalOps flatLine = Some ''M 4 5 L 20 5 L 20 3 L 4 3 Z''"
  by code_simp

text \<open>
  C5, as amended. \<open>strokeToOutline\<close> returns null exactly when the stroke attribute is
  absent, empty, \<open>none\<close> or \<open>transparent\<close>, or the tag is none of line, circle and
  rect and the element has no \<open>d\<close> attribute: with a convertible stroke, an element of
  another tag yields its own \<open>d\<close> attribute. When it returns null for an element other
  than a path, \<open>flattenSvgPaths\<close> takes the element's own \<open>d\<close> attribute, if it has a
  non-empty one.
\<close>

theorem strokeToOutline_null:
  "(strokeToOutline N e = None \<longleftrightarrow>
      falsy (getAttribute e ''stroke'') \<or> getAttribute e ''stroke'' = Some ''none'' \<or>
      getAttribute e ''stroke'' = Some ''transparent'' \<or>
      (toLowerCase (tagName e) \<notin> set [''line'', ''circle'', ''rect''] \<and>
       getAttribute e ''d'' = None)) \<and>
   (\<not> falsy (getAttribute e ''stroke'') \<and> getAttribute e ''stroke'' \<noteq> Some ''none'' \<and>
    getAttribute e ''stroke'' \<noteq> Some ''transparent'' \<and>
    toLowerCase (tagName e) \<notin> set [''line'', ''circle'', ''rect''] \<longrightarrow>
      strokeToOutline N e = getAttribute e ''d'') \<and>
   (toLowerCase (tagName e) \<noteq> ''path'' \<and> strokeToOutline N e = None \<longrightarrow>
      pathDataOf N e = truthy (getAttribute e ''d''))"
proof (intro conjI impI)
  show "strokeToOutline N e = None \<longleftrightarrow>
      falsy (getAttribute e ''stroke'') \<or> getAttribute e ''stroke'' = Some ''none'' \<or>
      getAttribute e ''stroke'' = Some ''transparent'' \<or>
      (toLowerCase (tagName e) \<notin> set [''line'', ''circle'', ''rect''] \<and>
       getAttribute e ''d'' = None)"
    by (auto simp: strokeToOutline_def Let_def)
next
  assume "\<not> falsy (getAttribute e ''stroke'') \<and> getAttribute e ''stroke'' \<noteq> Some ''none'' \<and>
    getAttribute e ''stroke'' \<noteq> Some ''transparent'' \<and>
    toLowerCase (tagName e) \<notin> set [''line'', ''circle'', ''rect'']"
  then show "strokeToOutline N e = getAttribute e ''d''"
    by (simp add: strokeToOutline_def Let_def)
next
  assume "toLowerCase (tagName e) \<noteq> ''path'' \<and> strokeToOutline N e = None"
  then show "pathDataOf N e = truthy (getAttribute e ''d'')"
    by (simp add: pathDataOf_def Let_def falsy_def)
qed

theorem strokeToOutline_null_witness:
  "strokeToOutline rationalOps plainCircle = None \<and>
   pathDataOf rationalOps plainCircle = None \<and>
   strokeToOutline rationalOps strokedPath = Some ''M5 12h14''"
proof -
  have 1: "falsy (getAttribute plainCircle ''stroke'')"
    by code_simp
  have 2: "toLowerCase (tagName plainCircle) \<noteq> ''path''"
    by code_simp
  have 3: "truthy (getAttribute plainCircle ''d'') = None"
    by code_simp
  have 4: "\<not> falsy (getAttribute strokedPath ''stroke'') \<and>
      getAttribute strokedPath ''stroke'' \<noteq> Some ''none'' \<and>
      getAttribute strokedPath ''stroke'' \<noteq> Some ''transparent'' \<and>
      toLowerCase (tagName strokedPath) \<notin> set [''line'', ''circle'', ''rect'']"
    by code_simp
  have 5: "getAttribute strokedPath ''d'' = Some ''M5 12h14''"
    by code_simp
  have a: "strokeToOutline rationalOps plainCircle = None"
    using strokeToOutline_null [of rationalOps plainCircle] 1 by blast
  then have b: "pathDataOf rationalOps plainCircle = None"
    using strokeToOutline_null [of rationalOps plainCircle] 2 3 by simp
  have c: "strokeToOutline rationalOps strokedPath = Some ''M5 12h14''"
    using strokeToOutline_null [of rationalOps strokedPath] 4 5 by simp
  show ?thesis
    using a b c by blast
qed

text \<open>
  C5 as stated fails: a path is a tag the outliner does not handle, yet for a path with
  a convertible stroke it returns the path data, not null.
\<close>

theorem strokeToOutline_null_counterexample:
  "toLowerCase (tagName strokedPath) = ''path'' \<and>
   strokeToOutline rationalOps strokedPath \<noteq> None"
  by code_simp

text \<open>
  C6. For a circle with a convertible stroke (the stroke attribute is present, not
  empty, and neither \<open>none\<close> nor \<open>transparent\<close>) the outline is a single circular
  sub-path of radius \<open>r + w/2\<close> when \<open>r - w/2 \<le> 0\<close>, and otherwise that sub-path
  followed by a second one of radius \<open>r - w/2\<close> with the opposite sweep flag. The
  numbers are any that satisfy two laws of \<open>Math.max\<close> and \<open>\<le>\<close> which hold of
  doubles, \<open>NaN\<close> included: \<open>Math.max(0, x) \<le> 0\<close> exactly when \<open>x \<le> 0\<close>, and
  \<open>Math.max(0, x)\<close> is \<open>x\<close> when \<open>x \<le> 0\<close> is false.
\<close>

theorem circle_outline:
  assumes "toLowerCase (tagName e) = ''circle''"
    and "getAttribute e ''stroke'' = Some s" and "s \<noteq> []" and "s \<noteq> ''none''"
    and "s \<noteq> ''transparent''"
    and "\<forall>x. numLe N (mathMax N (numLit N 0) x) (numLit N 0) = numLe N x (numLit N 0)"
    and "\<forall>x. \<not> numLe N x (numLit N 0) \<longrightarrow> mathMax N (numLit N 0) x = x"
  shows "strokeToOutline N e =
     Some (let cx = parseFloat N (orElse (getAttribute e ''cx'') ''0'');
               cy = parseFloat N (orElse (getAttribute e ''cy'') ''0'');
               r = parseFloat N (orElse (getAttribute e ''r'') ''0'');
               w = parseFloat N (orElse (getAttribute e ''stroke-width'') ''1'');
               half = numDiv N w (numLit N 2)
           in if numLe N (numSub N r half) (numLit N 0)
              then circleSubpath N cx cy (numAdd N r half) ''1''
              else circleSubpath N cx cy (numAdd N r half) ''1'' @ '' '' @
                   circleSubpath N cx cy (numSub N r half) ''0'')"
proof -
  have "strokeToOutline N e =
      Some (outlineCircle N e (orElse (getAttribute e ''stroke-width'') ''1''))"
    using assms(1-5) by (simp add: strokeToOutline_def Let_def falsy_def)
  moreover have "outlineCircle N e (orElse (getAttribute e ''stroke-width'') ''1'') =
      (let cx = parseFloat N (orElse (getAttribute e ''cx'') ''0'');
               cy = parseFloat N (orElse (getAttribute e ''cy'') ''0'');
               r = parseFloat N (orElse (getAttribute e ''r'') ''0'');
               w = parseFloat N (orElse (getAttribute e ''stroke-width'') ''1'');
               half = numDiv N w (numLit N 2)
           in if numLe N (numSub N r half) (numLit N 0)
              then circleSubpath N cx cy (numAdd N r half) ''1''
              else circleSubpath N cx cy (numAdd N r half) ''1'' @ '' '' @
                   circleSubpath N cx cy (numSub N r half) ''0'')"
    using assms(6,7)
    by (simp add: outlineCircle_def circleSubpath_def numAttr_def Let_def)
  ultimately show ?thesis
    by simp
qed

theorem circle_outline_witness:
  "strokeToOutline rationalOps ringCircle =
     Some ''M 12 2 A 10 10 0 1 1 12 22 A 10 10 0 1 1 12 2 Z M 12 4 A 8 8 0 1 0 12 20 A 8 8 0 1 0 12 4 Z'' \<and>
   strokeToOutline rationalOps discCircle =
     Some ''M 12 9.5 A 2.5 2.5 0 1 1 12 14.5 A 2.5 2.5 0 1 1 12 9.5 Z''"
proof -
  have tags: "toLowerCase (tagName ringCircle) = ''circle''"
    "toLowerCase (tagName discCircle) = ''circle''"
    by code_simp+
  have strokes: "getAttribute ringCircle ''stroke'' = Some ''#000000''"
    "getAttribute discCircle ''stroke'' = Some ''#000000''"
    by code_simp+
  have ring: "(let cx = parseFloat rationalOps (orElse (getAttribute ringCircle ''cx'') ''0'');
               cy = parseFloat rationalOps (orElse (getAttribute ringCircle ''cy'') ''0'');
               r = parseFloat rationalOps (orElse (getAttribute ringCircle ''r'') ''0'');
               w = parseFloat rationalOps (orElse (getAttribute ringCircle ''stroke-width'') ''1'');
               half = numDiv rationalOps w (numLit rationalOps 2)
           in if numLe rationalOps (numSub rationalOps r half) (numLit rationalOps 0)
              then circleSubpath rationalOps cx cy (numAdd rationalOps r half) ''1''
              else circleSubpath rationalOps cx cy (numAdd rationalOps r half) ''1'' @ '' '' @
                   circleSubpath rationalOps cx cy (numSub rationalOps r half) ''0'') =
      ''M 12 2 A 10 10 0 1 1 12 22 A 10 10 0 1 1 12 2 Z M 12 4 A 8 8 0 1 0 12 20 A 8 8 0 1 0 12 4 Z''"
    by code_simp
  have disc: "(let cx = parseFloat rationalOps (orElse (getAttribute discCircle ''cx'') ''0'');
               cy = parseFloat rationalOps (orElse (getAttribute discCircle ''cy'') ''0'');
               r = parseFloat rationalOps (orElse (getAttribute discCircle ''r'') ''0'');
               w = parseFloat rationalOps (orElse (getAttribute discCircle ''stroke-width'') ''1'');
               half = numDiv rationalOps w (numLit rationalOps 2)
           in if numLe rationalOps (numSub rationalOps r half) (numLit rationalOps 0)
              then circleSubpath rationalOps cx cy (numAdd rationalOps r half) ''1''
              else circleSubpath rationalOps cx cy (numAdd rationalOps r half) ''1'' @ '' '' @
                   circleSubpath rationalOps cx cy (numSub rationalOps r half) ''0'') =
      ''M 12 9.5 A 2.5 2.5 0 1 1 12 14.5 A 2.5 2.5 0 1 1 12 9.5 Z''"
    by code_simp
  have laws: "\<forall>x. numLe rationalOps (mathMax rationalOps (numLit rationalOps 0) x)
        (numLit rationalOps 0) = numLe rationalOps x (numLit rationalOps 0)"
    "\<forall>x. \<not> numLe rationalOps x (numLit rationalOps 0) \<longrightarrow>
        mathMax rationalOps (numLit rationalOps 0) x = x"
    using rationalOps_max by blast+
  have "strokeToOutline rationalOps ringCircle =
     Some ''M 12 2 A 10 10 0 1 1 12 22 A 10 10 0 1 1 12 2 Z M 12 4 A 8 8 0 1 0 12 20 A 8 8 0 1 0 12 4 Z''"
    using circle_outline [OF tags(1) strokes(1) _ _ _ laws] ring by simp
  moreover have "strokeToOutline rationalOps discCircle =
     Some ''M 12 9.5 A 2.5 2.5 0 1 1 12 14.5 A 2.5 2.5 0 1 1 12 9.5 Z''"
    using circle_outline [OF tags(2) strokes(2) _ _ _ laws] disc by simp
  ultimately show ?thesis
    by blast
qed

end
